theory Spec2Isabelle
  imports Main "HOL-Library.Sublist" "HOL-Library.AList"
begin

section \<open>Strings\<close>

text \<open>
  Strings are byte lists. \<open>toLowerCase\<close> maps the ASCII letters \<open>A\<close>..\<open>Z\<close> to
  \<open>a\<close>..\<open>z\<close> (a table of the 26 pairs) and leaves every other byte alone. The program only compares the
  lowered answer with the one-letter strings \<open>y\<close>, \<open>n\<close>, \<open>p\<close> and \<open>q\<close>, and no
  string outside ASCII lowers to one of those.
\<close>

definition lowerChar :: "char \<Rightarrow> char" where
  "lowerChar c =
     (case map_of (zip ''ABCDEFGHIJKLMNOPQRSTUVWXYZ'' ''abcdefghijklmnopqrstuvwxyz'') c of
        Some d \<Rightarrow> d
      | None \<Rightarrow> c)"

definition toLowerCase :: "string \<Rightarrow> string" where
  "toLowerCase s = map lowerChar s"

section \<open>Errors\<close>

text \<open>
  Every \<open>throw\<close> and every rejected promise carries an \<open>Error\<close> object (a
  \<open>TypeError\<close> and a \<open>SyntaxError\<close> are such objects); the model keeps its message.
  A function that can throw returns \<open>js_error + 'a\<close>, with \<open>Inl\<close> the thrown error.
  An awaited promise is pending for ever, rejected with an error, or resolved with a
  value.
\<close>

datatype js_error = Error string

fun message :: "js_error \<Rightarrow> string" where
  "message (Error m) = m"

datatype 'a promise = Pending | Rejected js_error | Resolved 'a

text \<open>A number in a template string: its decimal digits.\<close>

fun showNat :: "nat \<Rightarrow> string" where
  "showNat n =
     (if n < 10 then [char_of (48 + n)]
      else showNat (n div 10) @ [char_of (48 + n mod 10)])"

declare showNat.simps [simp del]

section \<open>The micromatch library call\<close>

text \<open>
  \<open>micromatch(list, pattern)\<close> is a call into the micromatch package. It compiles the
  pattern first, and that throws a \<open>TypeError\<close> for the empty string and a
  \<open>SyntaxError\<close> for a pattern of more than 65536 characters (the model counts the
  characters of its own strings, which for ASCII text is the length the package
  tests). Otherwise it keeps the
  strings of the list that match, in list order, each string once (the package collects
  them in a set that keeps insertion order). The glob predicate itself is a parameter
  \<open>isMatch str pattern\<close>.
\<close>

fun uniq :: "'a list \<Rightarrow> 'a list" where
  "uniq [] = []"
| "uniq (x # xs) = x # uniq (filter (\<lambda>y. y \<noteq> x) xs)"

definition micromatch ::
  "(string \<Rightarrow> string \<Rightarrow> bool) \<Rightarrow> string list \<Rightarrow> string \<Rightarrow> js_error + string list" where
  "micromatch isMatch list pattern =
     (if pattern = [] then Inl (Error ''Expected pattern to be a non-empty string'')
      else if length pattern > 65536
      then Inl (Error (''Input length: '' @ showNat (length pattern)
                       @ '', exceeds maximum allowed length: 65536''))
      else Inr (uniq (filter (\<lambda>s. isMatch s pattern) list)))"

text \<open>
  A concrete glob predicate for the fragment of the glob syntax made of literal
  characters and \<open>*\<close> (any run of characters other than \<open>/\<close>). It is only used to
  run the model on concrete inputs.
\<close>

fun starMatchP :: "string \<Rightarrow> string \<Rightarrow> bool" where
  "starMatchP [] s = (s = [])"
| "starMatchP (p # ps) [] = (p = CHR ''*'' \<and> starMatchP ps [])"
| "starMatchP (p # ps) (c # cs) =
     (if p = CHR ''*''
      then starMatchP ps (c # cs) \<or> (c \<noteq> CHR ''/'' \<and> starMatchP (p # ps) cs)
      else p = c \<and> starMatchP ps cs)"

definition starMatch :: "string \<Rightarrow> string \<Rightarrow> bool" where
  "starMatch str pattern = starMatchP pattern str"

section \<open>The interactive selection loop (\<open>selectFiles\<close>)\<close>

text \<open>
  The closure \<open>askForFile\<close> mutates \<open>selectedFiles\<close> and \<open>index\<close>; the model passes
  them as a record. The lines typed by the user are a list, and each \<open>rl.question\<close>
  takes the next one. When the list is exhausted while a question is pending the
  promise never resolves: the result is \<open>Pending\<close>. When \<open>micromatch\<close> throws, the
  promise of \<open>askForFile\<close> is rejected with the error, and so is every \<open>await\<close> of
  it up to \<open>selectFiles\<close>. Otherwise the result is the final state together with the
  lines that were not read. The progress bar and the messages the loop prints are not
  part of the model.
\<close>

record selection =
  selectedFiles :: "string list"
  index :: nat

function askForFile ::
  "(string \<Rightarrow> string \<Rightarrow> bool) \<Rightarrow> string list \<Rightarrow> selection \<Rightarrow> string list
     \<Rightarrow> (selection \<times> string list) promise" where
  "askForFile isMatch files st inputs =
     (if index st \<ge> length files then Resolved (st, inputs)
      else
        (case inputs of
           [] \<Rightarrow> Pending
         | answer # rest \<Rightarrow>
            (let file = files ! index st in
             if toLowerCase answer = ''y'' then
               askForFile isMatch files
                 (st\<lparr>selectedFiles := selectedFiles st @ [file], index := index st + 1\<rparr>) rest
             else if toLowerCase answer = ''n'' then
               askForFile isMatch files (st\<lparr>index := index st + 1\<rparr>) rest
             else if toLowerCase answer = ''p'' then
               (case rest of
                  [] \<Rightarrow> Pending
                | pattern # rest' \<Rightarrow>
                   (case micromatch isMatch (drop (index st) files) pattern of
                      Inl error \<Rightarrow> Rejected error
                    | Inr matchedFiles \<Rightarrow>
                        askForFile isMatch files
                          (st\<lparr>selectedFiles := selectedFiles st @ matchedFiles,
                              index := index st + length matchedFiles\<rparr>) rest'))
             else if toLowerCase answer = ''q'' then Resolved (st, rest)
             else askForFile isMatch files st rest)))"
  by pat_completeness auto
termination
  by (relation "measure (\<lambda>(isMatch, files, st, inputs). length inputs)") auto

declare askForFile.simps [simp del]

definition selectFiles ::
  "(string \<Rightarrow> string \<Rightarrow> bool) \<Rightarrow> string list \<Rightarrow> string list
     \<Rightarrow> (string list \<times> string list) promise" where
  "selectFiles isMatch files inputs =
     (case askForFile isMatch files \<lparr>selectedFiles = [], index = 0\<rparr> inputs of
        Pending \<Rightarrow> Pending
      | Rejected error \<Rightarrow> Rejected error
      | Resolved (st, rest) \<Rightarrow> Resolved (selectedFiles st, rest))"

section \<open>Configuration (\<open>validateConfig\<close>, \<open>getConfiguration\<close>)\<close>

text \<open>
  \<open>JSON.parse\<close> is the runtime's; the model starts from the value it returns. An
  object is the list of its entries in insertion order, a number is kept as its text.
\<close>

datatype json =
    JNull
  | JBool bool
  | JNum string
  | JStr string
  | JArr "json list"
  | JObj "(string \<times> json) list"

type_synonym obj = "(string \<times> json) list"

text \<open>
  The own enumerable properties that the spread \<open>{...x}\<close> copies from a parsed value:
  the entries of an object, the indexed elements of an array, the indexed characters of
  a string, and nothing for \<open>null\<close>, a boolean or a number.
\<close>

fun ownEntries :: "json \<Rightarrow> obj" where
  "ownEntries (JObj kvs) = kvs"
| "ownEntries (JArr xs) = zip (map showNat [0..<length xs]) xs"
| "ownEntries (JStr s) = zip (map showNat [0..<length s]) (map (\<lambda>c. JStr [c]) s)"
| "ownEntries JNull = []"
| "ownEntries (JBool b) = []"
| "ownEntries (JNum n) = []"

text \<open>
  \<open>{...target, ...source}\<close>: the entries of the source are written onto the target
  one after the other; a key that is already there keeps its place and takes the new
  value, a new key is added at the end.
\<close>

definition spread :: "obj \<Rightarrow> json \<Rightarrow> obj" where
  "spread target source =
     foldl (\<lambda>acc (k, v). AList.update k v acc) target (ownEntries source)"

definition defaultConfig :: obj where
  "defaultConfig =
     [(''exclude'', JArr [JStr ''node_modules/**'', JStr ''.git/**'']),
      (''include'', JArr [JStr ''**/*.{js,ts,py,java,c,cpp,h,hpp,css,html}''])]"

text \<open>
  Reading an own property: \<open>None\<close> is \<open>undefined\<close>. The program reads
  \<open>exclude\<close> and \<open>include\<close> only, and no object inherits a member of these names.
\<close>

definition getProp :: "obj \<Rightarrow> string \<Rightarrow> json option" where
  "getProp config key = map_of config key"

fun isArray :: "json option \<Rightarrow> bool" where
  "isArray (Some (JArr xs)) = True"
| "isArray _ = False"

fun elements :: "json option \<Rightarrow> json list" where
  "elements (Some (JArr xs)) = xs"
| "elements _ = []"

fun isString :: "json \<Rightarrow> bool" where
  "isString (JStr s) = True"
| "isString _ = False"

text \<open>
  An array of strings: what \<open>validateConfig\<close> demands of \<open>exclude\<close> and \<open>include\<close>.
\<close>

definition stringArray :: "json \<Rightarrow> bool" where
  "stringArray v = (case v of JArr xs \<Rightarrow> list_all isString xs | _ \<Rightarrow> False)"

definition validateConfig :: "obj \<Rightarrow> js_error + unit" where
  \<open>validateConfig config =
     (if \<not> isArray (getProp config ''exclude'') \<or> \<not> isArray (getProp config ''include'')
      then Inl (Error ''Configuration error: "exclude" and "include" must be arrays'')
      else if (\<exists>pattern \<in> set (elements (getProp config ''exclude'')). \<not> isString pattern)
            \<or> (\<exists>pattern \<in> set (elements (getProp config ''include'')). \<not> isString pattern)
      then Inl (Error ''Configuration error: All patterns must be strings'')
      else Inr ())\<close>

text \<open>
  The state of the file at \<open>configPath\<close> (the \<open>--config\<close> argument resolved, or
  \<open>.codecopierrc.json\<close> under the root): it does not exist, reading it throws,
  \<open>JSON.parse\<close> throws, or it parses to a value. The strings are the messages of the
  errors thrown.
\<close>

datatype config_file =
    Absent
  | Unreadable string
  | Unparsable string
  | Parsed json

fun getConfiguration :: "config_file \<Rightarrow> js_error + obj" where
  "getConfiguration Absent = Inr defaultConfig"
| "getConfiguration (Unreadable m) =
     Inl (Error (''Error reading or parsing configuration file: '' @ m))"
| "getConfiguration (Unparsable m) =
     Inl (Error (''Error reading or parsing configuration file: '' @ m))"
| "getConfiguration (Parsed parsedConfig) =
     (let mergedConfig = spread defaultConfig parsedConfig in
      case validateConfig mergedConfig of
        Inl error \<Rightarrow>
          Inl (Error (''Error reading or parsing configuration file: '' @ message error))
      | Inr u \<Rightarrow> Inr mergedConfig)"

text \<open>
  The interface \<open>CodeCopierConfig\<close>, and the view of a runtime object under it. The
  view exists exactly for the objects that \<open>validateConfig\<close> accepts.
\<close>

record CodeCopierConfig =
  exclude :: "string list"
  include' :: "string list"

fun strings :: "json list \<Rightarrow> string list option" where
  "strings [] = Some []"
| "strings (JStr s # rest) = map_option ((#) s) (strings rest)"
| "strings (_ # rest) = None"

definition asConfig :: "obj \<Rightarrow> CodeCopierConfig option" where
  "asConfig config =
     (case (getProp config ''exclude'', getProp config ''include'') of
        (Some (JArr ex), Some (JArr inc)) \<Rightarrow>
          (case (strings ex, strings inc) of
             (Some e, Some i) \<Rightarrow> Some \<lparr>exclude = e, include' = i\<rparr>
           | _ \<Rightarrow> None)
      | _ \<Rightarrow> None)"

section \<open>File discovery (\<open>getAllFiles\<close>)\<close>

fun join :: "string \<Rightarrow> string list \<Rightarrow> string" where
  "join sep [] = []"
| "join sep [x] = x"
| "join sep (x # y # rest) = x @ sep @ join sep (y # rest)"

fun includes' :: "string \<Rightarrow> string \<Rightarrow> bool" where
  "includes' [] sub = (sub = [])"
| "includes' (c # t) sub = (prefix sub (c # t) \<or> includes' t sub)"

text \<open>
  The call into the glob package is the parameter \<open>glob pattern dir ignore\<close> (the
  options \<open>cwd: dir\<close>, \<open>ignore\<close> and \<open>nodir: true\<close>): it yields the message of the
  error passed to the callback, or the files found.
\<close>

definition getAllFiles ::
  "(string \<Rightarrow> string \<Rightarrow> string list \<Rightarrow> string + string list) \<Rightarrow> string \<Rightarrow> CodeCopierConfig
     \<Rightarrow> js_error + string list" where
  "getAllFiles glob dir config =
     (case glob (join ''|'' (include' config)) dir (exclude config) of
        Inl err \<Rightarrow>
          (if includes' err ''ENOENT'' then Inl (Error (''Directory not found: '' @ dir))
           else if includes' err ''EACCES''
           then Inl (Error (''Permission denied: Cannot access '' @ dir))
           else Inl (Error (''Error reading directory: '' @ err)))
      | Inr files \<Rightarrow> Inr files)"

text \<open>
  What the glob package computes on a readable directory, over a glob predicate
  \<open>isMatch path pattern\<close>: of the entries under the directory (relative paths, in the
  order the package reports them) it keeps the regular files that match the pattern and
  none of the ignore patterns, each path once. In a glob pattern the character \<open>|\<close>
  separates alternatives only inside a parenthesised group; elsewhere it is a literal
  character, as in \<open>starMatch\<close>.
\<close>

datatype entry_kind = RegularFile | Directory

definition globOver ::
  "(string \<Rightarrow> string \<Rightarrow> bool) \<Rightarrow> (string \<times> entry_kind) list
     \<Rightarrow> string \<Rightarrow> string \<Rightarrow> string list \<Rightarrow> string + string list" where
  "globOver isMatch entries pattern dir ignore =
     Inr (uniq (map fst (filter (\<lambda>(path, kind). kind = RegularFile \<and> isMatch path pattern
                                   \<and> \<not> (\<exists>ig \<in> set ignore. isMatch path ig)) entries)))"

section \<open>Output assembly (\<open>getFileExtension\<close>, \<open>collectCode\<close>)\<close>

text \<open>
  \<open>languageMap[ext]\<close> reads a property of an object literal: an own property of the
  table if there is one, else the member of \<open>Object.prototype\<close> of that name (a
  built-in function, named by its own name, or the prototype object itself, which the
  accessor \<open>__proto__\<close> yields), else \<open>undefined\<close>.
\<close>

datatype js_value =
    Str string
  | NativeFunction string
  | ObjectPrototype
  | Undefined

definition languageMap :: "(string \<times> string) list" where
  "languageMap =
     [(''js'', ''javascript''),
      (''ts'', ''typescript''),
      (''py'', ''python''),
      (''java'', ''java''),
      (''c'', ''c''),
      (''cpp'', ''cpp''),
      (''h'', ''cpp''),
      (''hpp'', ''cpp''),
      (''css'', ''css''),
      (''html'', ''html'')]"

text \<open>
  The members that every object inherits from \<open>Object.prototype\<close>, by name: the
  built-in functions (the member \<open>constructor\<close> is the function \<open>Object\<close>, every
  other function has the name of its key) and the accessor \<open>__proto__\<close>.
\<close>

definition objectPrototype :: "(string \<times> js_value) list" where
  "objectPrototype =
     [(''constructor'', NativeFunction ''Object''),
      (''__defineGetter__'', NativeFunction ''__defineGetter__''),
      (''__defineSetter__'', NativeFunction ''__defineSetter__''),
      (''hasOwnProperty'', NativeFunction ''hasOwnProperty''),
      (''__lookupGetter__'', NativeFunction ''__lookupGetter__''),
      (''__lookupSetter__'', NativeFunction ''__lookupSetter__''),
      (''isPrototypeOf'', NativeFunction ''isPrototypeOf''),
      (''propertyIsEnumerable'', NativeFunction ''propertyIsEnumerable''),
      (''toString'', NativeFunction ''toString''),
      (''valueOf'', NativeFunction ''valueOf''),
      (''__proto__'', ObjectPrototype),
      (''toLocaleString'', NativeFunction ''toLocaleString'')]"

definition readLanguageMap :: "string \<Rightarrow> js_value" where
  "readLanguageMap ext =
     (case map_of languageMap ext of
        Some tag \<Rightarrow> Str tag
      | None \<Rightarrow>
          (case map_of objectPrototype ext of
             Some member \<Rightarrow> member
           | None \<Rightarrow> Undefined))"

fun truthy :: "js_value \<Rightarrow> bool" where
  "truthy (Str s) = (s \<noteq> [])"
| "truthy (NativeFunction name) = True"
| "truthy ObjectPrototype = True"
| "truthy Undefined = False"

text \<open>
  \<open>path.extname\<close> is the parameter \<open>extname\<close>; \<open>.slice(1)\<close> drops its leading dot.
\<close>

definition getFileExtension :: "(string \<Rightarrow> string) \<Rightarrow> string \<Rightarrow> js_value" where
  "getFileExtension extname file =
     (let ext = drop 1 (extname file);
          v = readLanguageMap ext
      in if truthy v then v else Str [])"

text \<open>
  The text a value contributes to a string concatenation: a string itself, the source
  text the engine gives a built-in function, \<open>[object Object]\<close> for the prototype
  object.
\<close>

fun toText :: "js_value \<Rightarrow> string" where
  "toText (Str s) = s"
| "toText (NativeFunction name) = ''function '' @ name @ ''() { [native code] }''"
| "toText ObjectPrototype = ''[object Object]''"
| "toText Undefined = ''undefined''"

text \<open>
  A concrete \<open>extname\<close>, after the POSIX \<open>path.extname\<close>: the extension of the last
  path component, trailing slashes apart, from its last dot on; empty when the
  component has no dot, starts with its only dot, or is \<open>..\<close>. It is only used to run
  the model on concrete inputs.
\<close>

definition lastComponent :: "string \<Rightarrow> string" where
  "lastComponent p =
     rev (takeWhile (\<lambda>c. c \<noteq> CHR ''/'') (dropWhile (\<lambda>c. c = CHR ''/'') (rev p)))"

definition posixExtname :: "string \<Rightarrow> string" where
  "posixExtname p =
     (let comp = lastComponent p;
          afterDot = takeWhile (\<lambda>c. c \<noteq> CHR ''.'') (rev comp);
          beforeDot = drop (length afterDot + 1) (rev comp)
      in if CHR ''.'' \<in> set comp \<and> beforeDot \<noteq> [] \<and> comp \<noteq> ''..''
         then CHR ''.'' # rev afterDot
         else [])"

text \<open>
  \<open>collectCode\<close>: the \<open>forEach\<close> appends to \<open>output\<close>; \<open>fs.readFileSync\<close> either
  throws or yields the text of the file, and a throw leaves the loop and the function.
  \<open>path.join\<close> and \<open>fs.readFileSync\<close> are parameters.
\<close>

fun collectLoop ::
  "(string \<Rightarrow> string \<Rightarrow> string) \<Rightarrow> (string \<Rightarrow> js_error + string) \<Rightarrow> (string \<Rightarrow> string)
     \<Rightarrow> string \<Rightarrow> string \<Rightarrow> string list \<Rightarrow> js_error + string" where
  "collectLoop pathJoin readFileSync extname rootPath output [] = Inr output"
| "collectLoop pathJoin readFileSync extname rootPath output (file # rest) =
     (let fullPath = pathJoin rootPath file;
          output1 = output @ ''## File: '' @ file @ ''\<newline>\<newline>'';
          output2 = output1 @ ''```'' @ toText (getFileExtension extname file) @ ''\<newline>''
      in case readFileSync fullPath of
           Inl error \<Rightarrow> Inl error
         | Inr text \<Rightarrow>
             collectLoop pathJoin readFileSync extname rootPath
               (output2 @ text @ ''\<newline>```\<newline>\<newline>'') rest)"

definition collectCode ::
  "(string \<Rightarrow> string \<Rightarrow> string) \<Rightarrow> (string \<Rightarrow> js_error + string) \<Rightarrow> (string \<Rightarrow> string)
     \<Rightarrow> string \<Rightarrow> string list \<Rightarrow> js_error + string" where
  "collectCode pathJoin readFileSync extname rootPath filesToInclude =
     collectLoop pathJoin readFileSync extname rootPath
       ''# CodeCopier Output\<newline>\<newline>'' filesToInclude"

section \<open>Output writing (\<open>compressOutput\<close>, \<open>writeOutput\<close>)\<close>

text \<open>
  The disk maps a path to the bytes of the file there. \<open>fs.writeFileSync\<close> throws the
  error that \<open>writeError\<close> gives for the path, if any, and stores the data otherwise.
  A document is its UTF-8 bytes. \<open>zlib.gzip\<close> is the parameter \<open>gzip\<close>: it yields an
  error or the compressed bytes.
\<close>

type_synonym disk = "string \<rightharpoonup> string"

definition writeFileSync ::
  "(string \<Rightarrow> js_error option) \<Rightarrow> disk \<Rightarrow> string \<Rightarrow> string \<Rightarrow> js_error + disk" where
  "writeFileSync writeError d path data =
     (case writeError path of
        Some error \<Rightarrow> Inl error
      | None \<Rightarrow> Inr (d(path \<mapsto> data)))"

definition compressOutput :: "(string \<Rightarrow> js_error + string) \<Rightarrow> string \<Rightarrow> js_error + string" where
  "compressOutput gzip content =
     (case gzip content of
        Inl error \<Rightarrow> Inl error
      | Inr result \<Rightarrow> Inr result)"

definition writeOutput ::
  "(string \<Rightarrow> js_error + string) \<Rightarrow> (string \<Rightarrow> js_error option) \<Rightarrow> disk
     \<Rightarrow> string \<Rightarrow> string \<Rightarrow> bool \<Rightarrow> js_error + disk" where
  "writeOutput gzip writeError d content outputPath compress =
     (if compress then
        (case compressOutput gzip content of
           Inl error \<Rightarrow> Inl error
         | Inr compressedContent \<Rightarrow>
             writeFileSync writeError d (outputPath @ ''.gz'') compressedContent)
      else writeFileSync writeError d outputPath content)"

section \<open>The run (\<open>main\<close> and the top-level \<open>main().catch\<close>)\<close>

text \<open>
  Everything the run reads from outside: the parsed command line, the working
  directory, the state of the configuration file, the library calls, the lines on the
  standard input and the disk.
\<close>

record world =
  argv_output :: string
  argv_compress :: bool
  argv_verbose :: bool
  cwd :: string
  configFile :: config_file
  lib_glob :: "string \<Rightarrow> string \<Rightarrow> string list \<Rightarrow> string + string list"
  lib_isMatch :: "string \<Rightarrow> string \<Rightarrow> bool"
  stdin :: "string list"
  lib_pathJoin :: "string \<Rightarrow> string \<Rightarrow> string"
  lib_extname :: "string \<Rightarrow> string"
  lib_readFileSync :: "string \<Rightarrow> js_error + string"
  lib_gzip :: "string \<Rightarrow> js_error + string"
  lib_writeError :: "string \<Rightarrow> js_error option"
  onDisk :: disk

text \<open>
  What the run leaves behind: the lines written with \<open>console.error\<close> (the colours
  apart; \<open>Stack m\<close> stands for the stack text of the error with message \<open>m\<close>), whether
  \<open>rl.close()\<close> ran, whether \<open>getAllFiles\<close> was entered, and the disk. The progress
  and information lines written with \<open>console.log\<close> are not part of the model.
\<close>

datatype console_line = Line string | Stack string

record effects =
  stderr :: "console_line list"
  rlClosed :: bool
  discoveryStarted :: bool
  filesAfter :: disk

text \<open>
  The body of the \<open>try\<close> block: whether discovery was entered, and the error thrown or
  the disk at the end. \<open>None\<close>: a question of the selection loop is never answered, and
  the body never finishes. The view of the validated object as a \<open>CodeCopierConfig\<close> is
  TypeScript's; it cannot fail after \<open>validateConfig\<close>.
\<close>

definition tryBlock :: "world \<Rightarrow> (bool \<times> (js_error + disk)) option" where
  "tryBlock w =
     (let rootPath = cwd w in
      case getConfiguration (configFile w) of
        Inl error \<Rightarrow> Some (False, Inl error)
      | Inr configObject \<Rightarrow>
       (case asConfig configObject of
          None \<Rightarrow> Some (False, Inl (Error ''TypeError''))
        | Some config \<Rightarrow>
         (case getAllFiles (lib_glob w) rootPath config of
            Inl error \<Rightarrow> Some (True, Inl error)
          | Inr allFiles \<Rightarrow>
             if length allFiles = 0 then Some (True, Inr (onDisk w))
             else
              (case selectFiles (lib_isMatch w) allFiles (stdin w) of
                 Pending \<Rightarrow> None
               | Rejected error \<Rightarrow> Some (True, Inl error)
               | Resolved (chosen, unread) \<Rightarrow>
                  if length chosen = 0 then Some (True, Inr (onDisk w))
                  else
                   (case collectCode (lib_pathJoin w) (lib_readFileSync w) (lib_extname w) rootPath chosen of
                      Inl error \<Rightarrow> Some (True, Inl error)
                    | Inr output \<Rightarrow>
                       (case writeOutput (lib_gzip w) (lib_writeError w) (onDisk w) output
                               (lib_pathJoin w rootPath (argv_output w)) (argv_compress w) of
                          Inl error \<Rightarrow> Some (True, Inl error)
                        | Inr d \<Rightarrow> Some (True, Inr d)))))))"

text \<open>
  \<open>main\<close>: the \<open>catch\<close> block prints the error and swallows it, the \<open>finally\<close> block
  closes the readline interface, and the promise of \<open>main\<close> resolves. The first
  component is how that promise settles (\<open>Inl\<close>: rejected).
\<close>

definition main :: "world \<Rightarrow> ((js_error + unit) \<times> effects) option" where
  "main w =
     (case tryBlock w of
        None \<Rightarrow> None
      | Some (started, Inl error) \<Rightarrow>
          Some (Inr (),
                \<lparr>stderr = [Line ''An error occurred:'', Line (message error)]
                            @ (if argv_verbose w then [Stack (message error)] else []),
                 rlClosed = True, discoveryStarted = started, filesAfter = onDisk w\<rparr>)
      | Some (started, Inr d) \<Rightarrow>
          Some (Inr (),
                \<lparr>stderr = [], rlClosed = True, discoveryStarted = started, filesAfter = d\<rparr>))"

text \<open>
  The top level: a rejection of \<open>main\<close> is printed and the process exits with code 1;
  otherwise the process ends when nothing is left to do, with the exit code 0 that a
  Node process has when none was set. The result is the exit code and the effects.
\<close>

definition program :: "world \<Rightarrow> (nat \<times> effects) option" where
  "program w =
     (case main w of
        None \<Rightarrow> None
      | Some (Inl error, eff) \<Rightarrow>
          Some (1, eff\<lparr>stderr := stderr eff @ [Line ''Unhandled error:'', Line (message error)]
                                   @ (if argv_verbose w then [Stack (message error)] else [])\<rparr>)
      | Some (Inr u, eff) \<Rightarrow> Some (0, eff))"

section \<open>Facts about the library models\<close>

lemma toLowerCase_answers:
  "toLowerCase ''y'' = ''y''" "toLowerCase ''n'' = ''n''"
  "toLowerCase ''p'' = ''p''" "toLowerCase ''q'' = ''q''"
  by (simp_all add: toLowerCase_def lowerChar_def)


lemma set_uniq: "set (uniq xs) = set xs"
  by (induction xs rule: uniq.induct) auto

lemma distinct_uniq: "distinct (uniq xs)"
  by (induction xs rule: uniq.induct) (auto simp: set_uniq)

lemma uniq_distinct: "distinct xs \<Longrightarrow> uniq xs = xs"
proof (induction xs)
  case Nil
  show ?case by simp
next
  case (Cons a xs)
  have "filter (\<lambda>y. y \<noteq> a) xs = xs"
    using Cons.prems by (auto simp: filter_id_conv)
  then show ?case using Cons by simp
qed


lemma micromatch_throws_iff:
  "(\<exists>e. micromatch isMatch list pattern = Inl e) \<longleftrightarrow> pattern = [] \<or> length pattern > 65536"
  by (simp add: micromatch_def)




section \<open>The selection loop\<close>

lemma selection_eta: "\<lparr>selectedFiles = selectedFiles st, index = index st\<rparr> = (st :: selection)"
  by (cases st) simp

lemma askForFile_finished:
  "length files \<le> index st \<Longrightarrow> askForFile isMatch files st inputs = Resolved (st, inputs)"
  using askForFile.simps [of isMatch files st inputs] by simp

lemma askForFile_starved:
  "index st < length files \<Longrightarrow> askForFile isMatch files st [] = Pending"
  using askForFile.simps [of isMatch files st "[]"] by simp

lemma askForFile_yes:
  assumes "index st < length files" and "toLowerCase answer = ''y''"
  shows "askForFile isMatch files st (answer # rest) =
           askForFile isMatch files
             (st\<lparr>selectedFiles := selectedFiles st @ [files ! index st],
                 index := index st + 1\<rparr>) rest"
  using assms askForFile.simps [of isMatch files st "answer # rest"] by (simp add: Let_def)

lemma askForFile_no:
  assumes "index st < length files" and "toLowerCase answer = ''n''"
  shows "askForFile isMatch files st (answer # rest) =
           askForFile isMatch files (st\<lparr>index := index st + 1\<rparr>) rest"
  using assms askForFile.simps [of isMatch files st "answer # rest"] by (simp add: Let_def)

lemma askForFile_quit:
  assumes "index st < length files" and "toLowerCase answer = ''q''"
  shows "askForFile isMatch files st (answer # rest) = Resolved (st, rest)"
  using assms askForFile.simps [of isMatch files st "answer # rest"] by (simp add: Let_def)

lemma askForFile_invalid:
  assumes "index st < length files"
    and "toLowerCase answer \<notin> {''y'', ''n'', ''p'', ''q''}"
  shows "askForFile isMatch files st (answer # rest) = askForFile isMatch files st rest"
  using assms askForFile.simps [of isMatch files st "answer # rest"] by (simp add: Let_def)

text \<open>
  A run of \<open>y\<close>/\<open>n\<close> answers moves the cursor by its length and appends the
  candidates answered \<open>y\<close>, in order.
\<close>

lemma yes_no_prefix:
  assumes "index st + length answers \<le> length files" and "set answers \<subseteq> {''y'', ''n''}"
  shows "askForFile isMatch files st (answers @ later) =
           askForFile isMatch files
             \<lparr>selectedFiles = selectedFiles st @
                map fst (filter (\<lambda>(f, a). a = ''y'') (zip (drop (index st) files) answers)),
              index = index st + length answers\<rparr> later"
  using assms
proof (induction answers arbitrary: st)
  case Nil
  then show ?case by (simp add: selection_eta)
next
  case (Cons a as)
  have lt: "index st < length files" using Cons.prems(1) by simp
  have d: "drop (index st) files = files ! index st # drop (Suc (index st)) files"
    using lt by (simp add: Cons_nth_drop_Suc)
  from Cons.prems(2) consider "a = ''y''" | "a = ''n''" by auto
  then show ?case
  proof cases
    case 1
    let ?st' = "st\<lparr>selectedFiles := selectedFiles st @ [files ! index st],
                    index := index st + 1\<rparr>"
    have "askForFile isMatch files st ((a # as) @ later) = askForFile isMatch files ?st' (as @ later)"
      using askForFile_yes [OF lt, of a isMatch "as @ later"] 1
      by (simp add: toLowerCase_answers)
    also have "\<dots> = askForFile isMatch files
             \<lparr>selectedFiles = selectedFiles ?st' @
                map fst (filter (\<lambda>(f, a). a = ''y'') (zip (drop (index ?st') files) as)),
              index = index ?st' + length as\<rparr> later"
      using Cons.prems by (intro Cons.IH) auto
    finally show ?thesis using 1 d by simp
  next
    case 2
    let ?st' = "st\<lparr>index := index st + 1\<rparr>"
    have "askForFile isMatch files st ((a # as) @ later) = askForFile isMatch files ?st' (as @ later)"
      using askForFile_no [OF lt, of a isMatch "as @ later"] 2
      by (simp add: toLowerCase_answers)
    also have "\<dots> = askForFile isMatch files
             \<lparr>selectedFiles = selectedFiles ?st' @
                map fst (filter (\<lambda>(f, a). a = ''y'') (zip (drop (index ?st') files) as)),
              index = index ?st' + length as\<rparr> later"
      using Cons.prems by (intro Cons.IH) auto
    finally show ?thesis using 2 d by simp
  qed
qed

text \<open>
  After \<open>y\<close>/\<open>n\<close> answers only, \<open>q\<close> at cursor \<open>i\<close> returns the candidates
  answered \<open>y\<close> among the first \<open>i\<close>, and leaves the rest of the input unread.
\<close>

lemma yes_no_then_quit:
  assumes "length answers < length files" and "set answers \<subseteq> {''y'', ''n''}"
  shows "selectFiles isMatch files (answers @ ''q'' # rest) =
           Resolved (map fst (filter (\<lambda>(f, a). a = ''y'') (zip files answers)), rest)"
proof -
  let ?st = "\<lparr>selectedFiles = map fst (filter (\<lambda>(f, a). a = ''y'') (zip files answers)),
              index = length answers\<rparr>"
  have "askForFile isMatch files \<lparr>selectedFiles = [], index = 0\<rparr> (answers @ ''q'' # rest) =
          askForFile isMatch files ?st (''q'' # rest)"
    using yes_no_prefix [of "\<lparr>selectedFiles = [], index = 0\<rparr>" answers files isMatch "''q'' # rest"]
      assms by simp
  also have "\<dots> = Resolved (?st, rest)"
    using assms(1) by (intro askForFile_quit) (simp_all add: toLowerCase_answers)
  finally show ?thesis by (simp add: selectFiles_def)
qed

lemma askForFile_pattern_throws:
  assumes "index st < length files" and "toLowerCase answer = ''p''"
    and "micromatch isMatch (drop (index st) files) pattern = Inl e"
  shows "askForFile isMatch files st (answer # pattern # rest) = Rejected e"
  using assms askForFile.simps [of isMatch files st "answer # pattern # rest"]
  by (simp add: Let_def)




text \<open>
  C2. The selection does not stay duplicate-free: the cursor advances by the number of
  matches, not past the matched files. With the candidates \<open>a.ts\<close>, \<open>b.js\<close> and the
  pattern \<open>*.js\<close> entered at cursor 0, \<open>b.js\<close> is added and the cursor moves to 1,
  where \<open>b.js\<close> is offered again; answering \<open>y\<close> adds it a second time, and
  \<open>a.ts\<close> is never offered.
\<close>

theorem pattern_batch_offers_matched_file_again:
  "selectFiles starMatch [''a.ts'', ''b.js''] [''p'', ''*.js'', ''y'']
     = Resolved ([''b.js'', ''b.js''], [])
   \<and> \<not> distinct [''b.js'', ''b.js'']
   \<and> \<not> subseq [''b.js'', ''b.js''] [''a.ts'', ''b.js'']"
  by (simp add: selectFiles_def askForFile.simps micromatch_def starMatch_def
      toLowerCase_def lowerChar_def)

text \<open>
  C5. With as many answers as candidates, each \<open>y\<close> or \<open>n\<close>, the loop returns
  exactly the candidates answered \<open>y\<close>, in the order of the candidate list, and has
  read all the answers.
\<close>

theorem yes_no_answers_select_subsequence:
  assumes "length answers = length files" and "set answers \<subseteq> {''y'', ''n''}"
  shows "selectFiles isMatch files answers =
           Resolved (map fst (filter (\<lambda>(f, a). a = ''y'') (zip files answers)), [])"
proof -
  have "askForFile isMatch files \<lparr>selectedFiles = [], index = 0\<rparr> (answers @ []) =
          askForFile isMatch files
            \<lparr>selectedFiles = map fst (filter (\<lambda>(f, a). a = ''y'') (zip files answers)),
             index = length files\<rparr> []"
    using yes_no_prefix [of "\<lparr>selectedFiles = [], index = 0\<rparr>" answers files isMatch "[]"] assms
    by simp
  then show ?thesis
    by (simp add: selectFiles_def askForFile_finished)
qed

theorem yes_no_answers_select_subsequence_witness:
  "length [''y'', ''n'', ''y''] = length [''a.js'', ''b.ts'', ''c.py'']
   \<and> set [''y'', ''n'', ''y''] \<subseteq> {''y'', ''n''}
   \<and> selectFiles starMatch [''a.js'', ''b.ts'', ''c.py''] [''y'', ''n'', ''y'']
       = Resolved ([''a.js'', ''c.py''], [])"
  using yes_no_answers_select_subsequence
    [of "[''y'', ''n'', ''y'']" "[''a.js'', ''b.ts'', ''c.py'']" starMatch]
  by simp

text \<open>
  C6. \<open>q\<close> does stop the loop at once (\<open>askForFile_quit\<close>), and after \<open>y\<close>/\<open>n\<close>
  answers the selection holds only candidates before the cursor (\<open>yes_no_then_quit\<close>).
  After a pattern it need not: with the candidates \<open>a.ts\<close>, \<open>b.js\<close> and the pattern
  \<open>*.js\<close> entered at cursor 0, the cursor is 1 and the selection already holds
  \<open>b.js\<close>, the candidate at position 1; \<open>q\<close> there returns it.
\<close>

theorem quit_after_pattern_returns_file_at_cursor:
  "askForFile starMatch [''a.ts'', ''b.js''] \<lparr>selectedFiles = [], index = 0\<rparr>
       [''p'', ''*.js'', ''q'', ''y'']
     = askForFile starMatch [''a.ts'', ''b.js''] \<lparr>selectedFiles = [''b.js''], index = 1\<rparr>
         [''q'', ''y'']
   \<and> selectFiles starMatch [''a.ts'', ''b.js''] [''p'', ''*.js'', ''q'', ''y'']
       = Resolved ([''b.js''], [''y''])
   \<and> [''a.ts'', ''b.js''] ! 1 = ''b.js''
   \<and> ''b.js'' \<notin> set (take 1 [''a.ts'', ''b.js''])"
  by (simp add: selectFiles_def askForFile.simps micromatch_def starMatch_def
      toLowerCase_def lowerChar_def)

section \<open>Configuration\<close>

lemma map_of_rev_distinct:
  "distinct (map fst es) \<Longrightarrow> map_of (rev es) = map_of es"
proof (induction es)
  case Nil
  show ?case by simp
next
  case (Cons e es)
  obtain k v where e: "e = (k, v)" by (cases e)
  have k: "k \<notin> dom (map_of es)" using Cons.prems e by (simp add: dom_map_of_conv_image_fst)
  have "map_of (rev (e # es)) = map_of [e] ++ map_of (rev es)"
    by (simp add: map_of_append del: map_of.simps)
  also have "\<dots> = map_of [e] ++ map_of es" using Cons by simp
  also have "\<dots> = map_of (e # es)"
    using k e by (auto simp: map_add_def fun_eq_iff split: option.splits)
  finally show ?case .
qed

lemma map_of_foldl_update:
  "map_of (foldl (\<lambda>acc (k, v). AList.update k v acc) t es) = map_of t ++ map_of (rev es)"
proof (induction es arbitrary: t)
  case Nil
  show ?case by simp
next
  case (Cons e es)
  obtain k v where e: "e = (k, v)" by (cases e)
  have "map_of (foldl (\<lambda>acc (k, v). AList.update k v acc) t (e # es))
          = map_of (AList.update k v t) ++ map_of (rev es)"
    using Cons.IH [of "AList.update k v t"] e by simp
  also have "\<dots> = map_of t ++ map_of (rev (e # es))"
    using e by (auto simp: update_conv' map_add_def fun_eq_iff map_of_append split: option.splits)
  finally show ?case .
qed

lemma getProp_spread:
  assumes "distinct (map fst (ownEntries parsed))"
  shows "getProp (spread target parsed) key =
           (case map_of (ownEntries parsed) key of
              Some v \<Rightarrow> Some v
            | None \<Rightarrow> getProp target key)"
  using assms
  by (simp add: getProp_def spread_def map_of_foldl_update map_of_rev_distinct map_add_def
      split: option.splits)

lemma validateConfig_ok_iff:
  "validateConfig config = Inr () \<longleftrightarrow>
     (\<exists>ex inc. getProp config ''exclude'' = Some (JArr ex) \<and> getProp config ''include'' = Some (JArr inc)
        \<and> list_all isString ex \<and> list_all isString inc)"
proof -
  have a: "isArray x \<longleftrightarrow> (\<exists>xs. x = Some (JArr xs))" for x
    by (cases x rule: isArray.cases) simp_all
  show ?thesis
    unfolding validateConfig_def
    by (auto simp: a list_all_iff)
qed

lemma validateConfig_error:
  "validateConfig config \<noteq> Inr () \<Longrightarrow>
     \<exists>m. validateConfig config = Inl (Error (''Configuration error: '' @ m))"
  unfolding validateConfig_def by (auto split: if_splits)

lemma strings_Some: "list_all isString xs \<Longrightarrow> \<exists>ss. strings xs = Some ss"
proof (induction xs)
  case Nil
  show ?case by simp
next
  case (Cons x xs)
  then show ?case by (cases x) auto
qed

lemma validated_has_view:
  "validateConfig config = Inr () \<Longrightarrow> \<exists>c. asConfig config = Some c"
  unfolding validateConfig_ok_iff asConfig_def
  using strings_Some by (fastforce split: option.splits)


lemma getConfiguration_has_view:
  assumes "getConfiguration cf = Inr config"
  shows "\<exists>c. asConfig config = Some c"
proof (cases cf)
  case Absent
  then have "config = defaultConfig" using assms by simp
  then show ?thesis by (simp add: asConfig_def getProp_def defaultConfig_def)
next
  case (Unreadable m)
  then show ?thesis using assms by simp
next
  case (Unparsable m)
  then show ?thesis using assms by simp
next
  case (Parsed parsedConfig)
  then have "validateConfig config = Inr ()"
    using assms by (auto simp: Let_def split: sum.splits)
  then show ?thesis by (rule validated_has_view)
qed

lemma getConfiguration_accepts:
  "validateConfig (spread defaultConfig parsed) = Inr () \<Longrightarrow>
     getConfiguration (Parsed parsed) = Inr (spread defaultConfig parsed)"
  by (simp add: Let_def)

lemma getConfiguration_rejects:
  assumes "validateConfig (spread defaultConfig parsed) \<noteq> Inr ()"
  shows "\<exists>m. getConfiguration (Parsed parsed) =
           Inl (Error (''Error reading or parsing configuration file: Configuration error: '' @ m))"
proof -
  obtain m where "validateConfig (spread defaultConfig parsed) = Inl (Error (''Configuration error: '' @ m))"
    using validateConfig_error [OF assms] by blast
  then show ?thesis by (simp add: Let_def)
qed

lemma defaultConfig_props:
  "getProp defaultConfig ''exclude'' = Some (JArr [JStr ''node_modules/**'', JStr ''.git/**''])"
  "getProp defaultConfig ''include'' = Some (JArr [JStr ''**/*.{js,ts,py,java,c,cpp,h,hpp,css,html}''])"
  by (simp_all add: getProp_def defaultConfig_def)

lemma merged_valid_iff:
  assumes "distinct (map fst (ownEntries parsed))"
  shows "validateConfig (spread defaultConfig parsed) = Inr () \<longleftrightarrow>
           (\<forall>key \<in> {''exclude'', ''include''}. \<forall>v. map_of (ownEntries parsed) key = Some v \<longrightarrow> stringArray v)"
proof -
  have sa: "stringArray v \<longleftrightarrow> (\<exists>xs. v = JArr xs \<and> list_all isString xs)" for v
    by (cases v) (simp_all add: stringArray_def)
  show ?thesis
    unfolding validateConfig_ok_iff getProp_spread [OF assms] defaultConfig_props
    by (auto simp: sa split: option.splits)
qed

text \<open>
  An error thrown in the \<open>try\<close> block is printed by the \<open>catch\<close> block, with the
  stack only under \<open>--verbose\<close>; the readline interface is closed, nothing is written,
  and the process ends with exit code 0.
\<close>

lemma tryBlock_config_error:
  "getConfiguration (configFile w) = Inl e \<Longrightarrow> tryBlock w = Some (False, Inl e)"
  by (simp add: tryBlock_def)

lemma program_after_error:
  "tryBlock w = Some (started, Inl e) \<Longrightarrow>
     program w = Some (0, \<lparr>stderr = [Line ''An error occurred:'', Line (message e)]
                            @ (if argv_verbose w then [Stack (message e)] else []),
                 rlClosed = True, discoveryStarted = started, filesAfter = onDisk w\<rparr>)"
  by (simp add: program_def main_def)

text \<open>
  C7. For a parsed configuration file (its keys distinct, as \<open>JSON.parse\<close> yields
  them): when every \<open>exclude\<close> or \<open>include\<close> key it has is an array of strings,
  \<open>getConfiguration\<close> returns the defaults with the parsed value spread over them, and
  each property of the result is the parsed one if the file has that key and the
  default otherwise. When one of these keys is present and is not an array of strings,
  \<open>getConfiguration\<close> throws a configuration error, and the run prints it, never
  enters discovery and leaves the disk as it was.
\<close>

theorem merged_configuration_or_rejection:
  assumes "distinct (map fst (ownEntries parsed))"
  shows "((\<forall>key \<in> {''exclude'', ''include''}. \<forall>v. map_of (ownEntries parsed) key = Some v \<longrightarrow> stringArray v)
          \<longrightarrow> getConfiguration (Parsed parsed) = Inr (spread defaultConfig parsed)
            \<and> (\<forall>key. getProp (spread defaultConfig parsed) key =
                  (case map_of (ownEntries parsed) key of
                     Some v \<Rightarrow> Some v
                   | None \<Rightarrow> getProp defaultConfig key)))
       \<and> ((\<exists>key \<in> {''exclude'', ''include''}. \<exists>v. map_of (ownEntries parsed) key = Some v \<and> \<not> stringArray v)
          \<longrightarrow> (\<exists>m. getConfiguration (Parsed parsed) =
                 Inl (Error (''Error reading or parsing configuration file: Configuration error: '' @ m)))
            \<and> (\<forall>w. configFile w = Parsed parsed \<longrightarrow>
                  (\<exists>code eff. program w = Some (code, eff) \<and> \<not> discoveryStarted eff
                     \<and> filesAfter eff = onDisk w \<and> stderr eff \<noteq> [])))"
proof (intro conjI impI)
  assume ok: "\<forall>key \<in> {''exclude'', ''include''}. \<forall>v. map_of (ownEntries parsed) key = Some v \<longrightarrow> stringArray v"
  then have "validateConfig (spread defaultConfig parsed) = Inr ()"
    using merged_valid_iff [OF assms] by blast
  then show "getConfiguration (Parsed parsed) = Inr (spread defaultConfig parsed)"
    by (rule getConfiguration_accepts)
next
  show "\<forall>key. getProp (spread defaultConfig parsed) key =
                  (case map_of (ownEntries parsed) key of
                     Some v \<Rightarrow> Some v
                   | None \<Rightarrow> getProp defaultConfig key)"
    using getProp_spread [OF assms] by blast
next
  assume bad: "\<exists>key \<in> {''exclude'', ''include''}. \<exists>v. map_of (ownEntries parsed) key = Some v \<and> \<not> stringArray v"
  then have nv: "validateConfig (spread defaultConfig parsed) \<noteq> Inr ()"
    using merged_valid_iff [OF assms] by blast
  then show "\<exists>m. getConfiguration (Parsed parsed) =
                 Inl (Error (''Error reading or parsing configuration file: Configuration error: '' @ m))"
    by (rule getConfiguration_rejects)
next
  assume bad: "\<exists>key \<in> {''exclude'', ''include''}. \<exists>v. map_of (ownEntries parsed) key = Some v \<and> \<not> stringArray v"
  then have nv: "validateConfig (spread defaultConfig parsed) \<noteq> Inr ()"
    using merged_valid_iff [OF assms] by blast
  then obtain m where m: "getConfiguration (Parsed parsed) = Inl (Error m)"
    using getConfiguration_rejects by blast
  show "\<forall>w. configFile w = Parsed parsed \<longrightarrow>
                  (\<exists>code eff. program w = Some (code, eff) \<and> \<not> discoveryStarted eff
                     \<and> filesAfter eff = onDisk w \<and> stderr eff \<noteq> [])"
  proof (intro allI impI)
    fix w :: world
    assume "configFile w = Parsed parsed"
    then have "tryBlock w = Some (False, Inl (Error m))"
      using m by (simp add: tryBlock_config_error)
    then have "program w = Some (0, \<lparr>stderr = [Line ''An error occurred:'', Line (message (Error m))]
                            @ (if argv_verbose w then [Stack (message (Error m))] else []),
                 rlClosed = True, discoveryStarted = False, filesAfter = onDisk w\<rparr>)"
      by (rule program_after_error)
    then show "\<exists>code eff. program w = Some (code, eff) \<and> \<not> discoveryStarted eff
                     \<and> filesAfter eff = onDisk w \<and> stderr eff \<noteq> []"
      by simp
  qed
qed

theorem merged_configuration_or_rejection_witness:
  \<open>getConfiguration (Parsed (JObj [(''include'', JArr [JStr ''src/*.ts'']), (''title'', JStr ''x'')]))
     = Inr [(''exclude'', JArr [JStr ''node_modules/**'', JStr ''.git/**'']),
            (''include'', JArr [JStr ''src/*.ts'']),
            (''title'', JStr ''x'')]
   \<and> (\<exists>m. getConfiguration (Parsed (JObj [(''exclude'', JStr ''notAnArray'')])) =
          Inl (Error (''Error reading or parsing configuration file: Configuration error: '' @ m)))\<close>
proof -
  have d1: "distinct (map fst (ownEntries (JObj [(''include'', JArr [JStr ''src/*.ts'']), (''title'', JStr ''x'')])))"
    by simp
  have d2: "distinct (map fst (ownEntries (JObj [(''exclude'', JStr ''notAnArray'')])))"
    by simp
  have a: "getConfiguration (Parsed (JObj [(''include'', JArr [JStr ''src/*.ts'']), (''title'', JStr ''x'')]))
             = Inr (spread defaultConfig (JObj [(''include'', JArr [JStr ''src/*.ts'']), (''title'', JStr ''x'')]))"
    using merged_configuration_or_rejection [OF d1] by (simp add: stringArray_def)
  have b: "\<exists>m. getConfiguration (Parsed (JObj [(''exclude'', JStr ''notAnArray'')])) =
          Inl (Error (''Error reading or parsing configuration file: Configuration error: '' @ m))"
    using merged_configuration_or_rejection [OF d2] by (simp add: stringArray_def)
  show ?thesis
    using a b by (simp add: spread_def defaultConfig_def)
qed

text \<open>
  C3. A fatal failure does not end the process with a non-zero exit code. With the
  configuration file \<open>{"exclude": "notAnArray"}\<close> and no \<open>--verbose\<close>, the error is
  printed without stack and the readline interface is closed, but \<open>main\<close> has caught
  the error, its promise resolves, the top-level handler with \<open>process.exit(1)\<close> does
  not run, and the exit code is 0.
\<close>

theorem configuration_error_exits_with_code_zero:
  \<open>program (w\<lparr>configFile := Parsed (JObj [(''exclude'', JStr ''notAnArray'')]),
               argv_verbose := False\<rparr>)
     = Some (0, \<lparr>stderr = [Line ''An error occurred:'',
                           Line ''Error reading or parsing configuration file: Configuration error: "exclude" and "include" must be arrays''],
                 rlClosed = True, discoveryStarted = False, filesAfter = onDisk w\<rparr>)\<close>
  by (simp add: program_def main_def tryBlock_def Let_def validateConfig_def spread_def
      defaultConfig_def getProp_def)

text \<open>No run that ends ends with another exit code.\<close>

lemma main_resolves: "main w = Some (r, eff) \<Longrightarrow> r = Inr () \<and> rlClosed eff"
  by (auto simp: main_def split: option.splits sum.splits prod.splits)

lemma program_exit_code: "program w = Some (code, eff) \<Longrightarrow> code = 0 \<and> rlClosed eff"
  unfolding program_def
  by (auto split: option.splits sum.splits prod.splits dest: main_resolves)

section \<open>File discovery\<close>

text \<open>
  C4. Discovery does not return the files that match at least one include pattern when
  there are several: the patterns are joined with \<open>|\<close> into one glob pattern, in
  which \<open>|\<close> is a literal character. With the include patterns \<open>*.js\<close> and
  \<open>*.ts\<close> and the regular files \<open>a.js\<close> and \<open>b.ts\<close> under the root, the glob
  call gets the pattern \<open>*.js|*.ts\<close> and discovery returns the empty list, although
  each file matches an include pattern.
\<close>

theorem joined_include_patterns_match_neither_file:
  "getAllFiles (globOver starMatch [(''a.js'', RegularFile), (''b.ts'', RegularFile)]) ''/proj''
      \<lparr>exclude = [], include' = [''*.js'', ''*.ts'']\<rparr> = Inr []
   \<and> starMatch ''a.js'' ''*.js'' \<and> starMatch ''b.ts'' ''*.ts''"
  by (simp add: getAllFiles_def globOver_def starMatch_def)

text \<open>
  With one include pattern discovery does return the regular files that match it and
  no exclude pattern, in the order of the listing, each once; an empty list is a
  success, and an error of the glob call is a thrown error.
\<close>

lemma getAllFiles_single_include:
  "getAllFiles (globOver m entries) dir \<lparr>exclude = ex, include' = [p]\<rparr> =
     Inr (uniq (map fst (filter (\<lambda>(path, kind). kind = RegularFile \<and> m path p
                                   \<and> \<not> (\<exists>ig \<in> set ex. m path ig)) entries)))"
  by (simp add: getAllFiles_def globOver_def)

lemma getAllFiles_error:
  "glob (join ''|'' (include' config)) dir (exclude config) = Inl err \<Longrightarrow>
     \<exists>m. getAllFiles glob dir config = Inl (Error m)"
  by (simp add: getAllFiles_def)

section \<open>Output assembly\<close>

text \<open>
  C10. A mixed-case extension does not always give the empty string: \<open>toString\<close> is
  no key of the table, but \<open>languageMap[ext]\<close> finds the function of that name that
  every object inherits, which is truthy, so \<open>getFileExtension\<close> returns that
  function for \<open>notes.toString\<close> and the fence line carries its source text.
\<close>

theorem inherited_member_for_mixed_case_extension:
  "posixExtname ''notes.toString'' = ''.toString''
   \<and> getFileExtension posixExtname ''notes.toString'' = NativeFunction ''toString''
   \<and> toText (getFileExtension posixExtname ''notes.toString'')
       = ''function toString() { [native code] }''"
  by (simp add: getFileExtension_def posixExtname_def lastComponent_def readLanguageMap_def
      languageMap_def objectPrototype_def Let_def)

text \<open>
  What \<open>getFileExtension\<close> returns, case by case: the tag of the table for a key of
  the table; the inherited member for a name of \<open>Object.prototype\<close> (for
  \<open>constructor\<close>, the function \<open>Object\<close>); the empty string for every other
  extension, for a path without extension among them. No key of the table has an
  upper-case letter.
\<close>

lemma getFileExtension_mapped:
  "map_of languageMap (drop 1 (extname file)) = Some tag \<Longrightarrow>
     getFileExtension extname file = Str tag"
  by (auto simp: getFileExtension_def readLanguageMap_def Let_def languageMap_def
      split: if_splits)

lemma getFileExtension_inherited:
  assumes "map_of languageMap (drop 1 (extname file)) = None"
    and "map_of objectPrototype (drop 1 (extname file)) = Some member"
  shows "getFileExtension extname file = member"
proof -
  have "truthy member"
    using assms(2) by (auto simp: objectPrototype_def split: if_splits)
  then show ?thesis
    using assms by (simp add: getFileExtension_def readLanguageMap_def Let_def)
qed

lemma getFileExtension_unmapped:
  assumes "map_of languageMap (drop 1 (extname file)) = None"
    and "map_of objectPrototype (drop 1 (extname file)) = None"
  shows "getFileExtension extname file = Str []"
  using assms by (simp add: getFileExtension_def readLanguageMap_def Let_def)

lemma getFileExtension_no_extension:
  "extname file = [] \<Longrightarrow> getFileExtension extname file = Str []"
  by (rule getFileExtension_unmapped) (simp_all add: languageMap_def objectPrototype_def)

lemma upper_case_not_in_table:
  assumes "\<exists>c \<in> set ext. c \<in> set ''ABCDEFGHIJKLMNOPQRSTUVWXYZ''"
  shows "map_of languageMap ext = None"
proof (rule ccontr)
  assume "map_of languageMap ext \<noteq> None"
  then have "ext \<in> {''js'', ''ts'', ''py'', ''java'', ''c'', ''cpp'', ''h'', ''hpp'', ''css'', ''html''}"
    by (auto simp: languageMap_def split: if_splits)
  with assms show False by auto
qed

lemma getFileExtension_with_upper_case:
  assumes "\<exists>c \<in> set (drop 1 (extname file)). c \<in> set ''ABCDEFGHIJKLMNOPQRSTUVWXYZ''"
    and "map_of objectPrototype (drop 1 (extname file)) = None"
  shows "getFileExtension extname file = Str []"
  using upper_case_not_in_table [OF assms(1)] assms(2) by (rule getFileExtension_unmapped)

lemma getFileExtension_examples:
  "getFileExtension posixExtname ''a.js'' = Str ''javascript''"
  "getFileExtension posixExtname ''a.JS'' = Str []"
  "getFileExtension posixExtname ''Makefile'' = Str []"
  "getFileExtension posixExtname ''x.constructor'' = NativeFunction ''Object''"
  "getFileExtension posixExtname ''x.__proto__'' = ObjectPrototype"
  by (simp_all add: getFileExtension_def posixExtname_def lastComponent_def readLanguageMap_def
      languageMap_def objectPrototype_def Let_def)

text \<open>
  The layout of the document: when every selected file can be read, it is the title
  line followed, for each selected file in selection order, by the header line with
  the relative path, a blank line, the fence line with the text of what
  \<open>getFileExtension\<close> returns for the path, the text of the file as read, the closing
  fence and a blank line. A file that cannot be read makes \<open>collectCode\<close> throw.
\<close>

lemma collectLoop_sections:
  assumes "\<forall>f \<in> set chosen. readFileSync (pathJoin rootPath f) = Inr (content f)"
  shows "collectLoop pathJoin readFileSync extname rootPath out chosen =
           Inr (out @ concat (map (\<lambda>f. ''## File: '' @ f @ ''\<newline>\<newline>'' @ ''```''
                                      @ toText (getFileExtension extname f) @ ''\<newline>''
                                      @ content f @ ''\<newline>```\<newline>\<newline>'') chosen))"
  using assms
proof (induction chosen arbitrary: out)
  case Nil
  show ?case by simp
next
  case (Cons f fs)
  have r: "readFileSync (pathJoin rootPath f) = Inr (content f)" using Cons.prems by simp
  have rest: "\<forall>g \<in> set fs. readFileSync (pathJoin rootPath g) = Inr (content g)"
    using Cons.prems by simp
  show ?case
    using Cons.IH [OF rest] r by (simp add: Let_def)
qed

lemma collectCode_sections:
  assumes "\<forall>f \<in> set chosen. readFileSync (pathJoin rootPath f) = Inr (content f)"
  shows "collectCode pathJoin readFileSync extname rootPath chosen =
        Inr (''# CodeCopier Output\<newline>\<newline>''
             @ concat (map (\<lambda>f. ''## File: '' @ f @ ''\<newline>\<newline>'' @ ''```''
                                @ toText (getFileExtension extname f) @ ''\<newline>''
                                @ content f @ ''\<newline>```\<newline>\<newline>'') chosen))"
  unfolding collectCode_def using assms by (rule collectLoop_sections)

lemma collectLoop_read_error:
  assumes "f \<in> set chosen" and "readFileSync (pathJoin rootPath f) = Inl e"
  shows "\<exists>e'. collectLoop pathJoin readFileSync extname rootPath out chosen = Inl e'"
  using assms
proof (induction chosen arbitrary: out)
  case Nil
  then show ?case by simp
next
  case (Cons g gs)
  then show ?case by (cases "readFileSync (pathJoin rootPath g)") (auto simp: Let_def)
qed

text \<open>The document of the specification's scenario, the single file \<open>a.js\<close>.\<close>

lemma collectCode_single_js_file:
  "collectCode (\<lambda>root file. root @ ''/'' @ file)
        (\<lambda>p. if p = ''/proj/a.js'' then Inr ''console.log(1)'' else Inl (Error ''ENOENT''))
        posixExtname ''/proj'' [''a.js'']
       = Inr ''# CodeCopier Output\<newline>\<newline>## File: a.js\<newline>\<newline>```javascript\<newline>console.log(1)\<newline>```\<newline>\<newline>''"
  by (simp add: collectCode_def Let_def getFileExtension_def posixExtname_def
      lastComponent_def readLanguageMap_def languageMap_def)

text \<open>
  C8. The document has the layout of the claim, and a file whose extension is a key of
  the table or is in no table at all gets the tag of the static mapping (\<open>a.js\<close>:
  \<open>javascript\<close>; \<open>Makefile\<close>: none). But the fence line is not always tagged via
  the static mapping: for the selected file \<open>notes.toString\<close>, whose extension the
  mapping does not have, it carries the source text of the inherited function instead
  of no tag.
\<close>

theorem fence_line_carries_inherited_function_text:
  "collectCode (\<lambda>root file. root @ ''/'' @ file)
        (\<lambda>p. if p = ''/proj/a.js'' then Inr ''console.log(1)''
              else if p = ''/proj/Makefile'' then Inr ''all:''
              else if p = ''/proj/notes.toString'' then Inr ''hello''
              else Inl (Error ''ENOENT''))
        posixExtname ''/proj'' [''a.js'', ''Makefile'', ''notes.toString'']
     = Inr ''# CodeCopier Output\<newline>\<newline>## File: a.js\<newline>\<newline>```javascript\<newline>console.log(1)\<newline>```\<newline>\<newline>## File: Makefile\<newline>\<newline>```\<newline>all:\<newline>```\<newline>\<newline>## File: notes.toString\<newline>\<newline>```function toString() { [native code] }\<newline>hello\<newline>```\<newline>\<newline>''"
  by (simp add: collectCode_def Let_def getFileExtension_def posixExtname_def
      lastComponent_def readLanguageMap_def languageMap_def objectPrototype_def)

section \<open>Output writing\<close>

text \<open>
  C9. Without compression, and when the write does not fail, \<open>writeOutput\<close> stores
  the document at the output path. With compression, when \<open>gzip\<close> yields \<open>z\<close> and the
  write does not fail, it stores exactly \<open>z\<close> at the output path followed by
  \<open>.gz\<close>; so any \<open>gunzip\<close> that inverts \<open>gzip\<close>, as zlib's does, gives the
  document back from the stored bytes.
\<close>

theorem writeOutput_plain_or_gzip:
  fixes gunzip :: "string \<Rightarrow> string option"
  assumes "\<And>c z. gzip c = Inr z \<Longrightarrow> gunzip z = Some c"
  shows "(writeError outputPath = None \<longrightarrow>
            writeOutput gzip writeError d content outputPath False
              = Inr (d(outputPath \<mapsto> content)))
       \<and> (\<forall>z. gzip content = Inr z \<and> writeError (outputPath @ ''.gz'') = None \<longrightarrow>
            writeOutput gzip writeError d content outputPath True
              = Inr (d(outputPath @ ''.gz'' \<mapsto> z))
            \<and> gunzip z = Some content)"
  using assms by (auto simp: writeOutput_def writeFileSync_def compressOutput_def)

theorem writeOutput_plain_or_gzip_witness:
  "writeOutput (\<lambda>c. Inr (''gz:'' @ c)) (\<lambda>p. None) Map.empty ''# Doc'' ''/proj/out.md'' False
     = Inr [''/proj/out.md'' \<mapsto> ''# Doc'']
   \<and> writeOutput (\<lambda>c. Inr (''gz:'' @ c)) (\<lambda>p. None) Map.empty ''# Doc'' ''/proj/out.md'' True
     = Inr [''/proj/out.md.gz'' \<mapsto> ''gz:# Doc'']
   \<and> (\<lambda>z. if take 3 z = ''gz:'' then Some (drop 3 z) else None) ''gz:# Doc'' = Some ''# Doc''"
proof -
  have rt: "\<And>c z. (\<lambda>c. Inr (''gz:'' @ c) :: js_error + string) c = Inr z \<Longrightarrow>
              (\<lambda>z. if take 3 z = ''gz:'' then Some (drop 3 z) else None) z = Some c"
    by auto
  show ?thesis
    using writeOutput_plain_or_gzip [of "\<lambda>c. Inr (''gz:'' @ c)"
        "\<lambda>z. if take 3 z = ''gz:'' then Some (drop 3 z) else None"
        "\<lambda>p. None" "''/proj/out.md''" Map.empty "''# Doc''", OF rt]
    by simp
qed

text \<open>A failing write or compression is a thrown error.\<close>

lemma writeOutput_failures:
  "writeError outputPath = Some e \<Longrightarrow>
     writeOutput gzip writeError d content outputPath False = Inl e"
  "gzip content = Inl e \<Longrightarrow> writeOutput gzip writeError d content outputPath True = Inl e"
  by (simp_all add: writeOutput_def writeFileSync_def compressOutput_def)

end
